theory Spec2Isabelle
  imports Complex_Main
begin

section \<open>Numbers\<close>

text \<open>
  The services compute with JavaScript numbers. They are modelled as exact reals: a
  decimal constant such as \<open>0.15\<close> is the rational number it denotes and sums and
  products are exact; the rounding error of binary floating point is outside the model.

  \<open>Math.round\<close> rounds to the nearest integer, a half upwards.
\<close>

definition Math_round :: "real \<Rightarrow> int" where
  "Math_round x = \<lfloor>x + 1 / 2\<rfloor>"

section \<open>Personality adjuster (rating.service.ts)\<close>

record RatingCategory =
  crowdSize :: real
  noiseLevel :: real
  socialEnergy :: real
  service :: real
  atmosphere :: real

text \<open>
  \<open>normalizeCategoriesToObjective\<close>: a copy of the categories; if the rater is an
  introvert (\<open>raterAdjustmentFactor <= -0.2\<close>) the three personality-sensitive
  keys \<open>crowdSize\<close>, \<open>noiseLevel\<close>, \<open>socialEnergy\<close> are set to \<open>11 - categories[key]\<close>.
\<close>

definition normalizeCategoriesToObjective :: "RatingCategory \<Rightarrow> real \<Rightarrow> RatingCategory" where
  "normalizeCategoriesToObjective categories raterAdjustmentFactor =
     (if raterAdjustmentFactor \<le> - 0.2 then
        categories\<lparr>crowdSize := 11 - crowdSize categories,
                    noiseLevel := 11 - noiseLevel categories,
                    socialEnergy := 11 - socialEnergy categories\<rparr>
      else categories)"

text \<open>\<open>adjustCategoriesForPersonality\<close>: the same transformation, keyed on the given factor.\<close>

definition adjustCategoriesForPersonality :: "RatingCategory \<Rightarrow> real \<Rightarrow> RatingCategory" where
  "adjustCategoriesForPersonality categories adjustmentFactor =
     (if adjustmentFactor \<le> - 0.2 then
        categories\<lparr>crowdSize := 11 - crowdSize categories,
                    noiseLevel := 11 - noiseLevel categories,
                    socialEnergy := 11 - socialEnergy categories\<rparr>
      else categories)"

definition adjustCategoriesForViewer :: "RatingCategory \<Rightarrow> real \<Rightarrow> RatingCategory" where
  "adjustCategoriesForViewer normalizedCategories viewerAdjustmentFactor =
     adjustCategoriesForPersonality normalizedCategories viewerAdjustmentFactor"

text \<open>
  \<open>calculateOverallScore\<close>: adjust for the rater's personality, take the weighted sum
  in the order the source adds the terms, and round to one decimal.
\<close>

definition weighted_sum :: "RatingCategory \<Rightarrow> real" where
  "weighted_sum adjustedCategories =
     crowdSize adjustedCategories * 0.15 +
     noiseLevel adjustedCategories * 0.15 +
     socialEnergy adjustedCategories * 0.25 +
     service adjustedCategories * 0.2 +
     atmosphere adjustedCategories * 0.25"

definition calculateOverallScore :: "RatingCategory \<Rightarrow> real \<Rightarrow> real" where
  "calculateOverallScore categories raterAdjustmentFactor =
     (let adjustedCategories = adjustCategoriesForPersonality categories raterAdjustmentFactor;
          weighted = weighted_sum adjustedCategories
      in real_of_int (Math_round (weighted * 10)) / 10)"

definition calculateAdjustedScoreForViewer :: "RatingCategory \<Rightarrow> real \<Rightarrow> real \<Rightarrow> real" where
  "calculateAdjustedScoreForViewer ratingCategories raterAdjustmentFactor viewerAdjustmentFactor =
     (let normalized = normalizeCategoriesToObjective ratingCategories raterAdjustmentFactor;
          adjusted = adjustCategoriesForViewer normalized viewerAdjustmentFactor
      in calculateOverallScore adjusted 0)"

definition getPersonalityBucket :: "real \<Rightarrow> string" where
  "getPersonalityBucket adjustmentFactor =
     (if adjustmentFactor \<le> - 0.2 then ''introvert''
      else if adjustmentFactor \<ge> 0.2 then ''extrovert''
      else ''ambivert'')"

text \<open>A category record of the rating form: every dimension lies between 1 and 10.\<close>

definition valid_categories :: "RatingCategory \<Rightarrow> bool" where
  "valid_categories c \<longleftrightarrow>
     1 \<le> crowdSize c \<and> crowdSize c \<le> 10 \<and>
     1 \<le> noiseLevel c \<and> noiseLevel c \<le> 10 \<and>
     1 \<le> socialEnergy c \<and> socialEnergy c \<le> 10 \<and>
     1 \<le> service c \<and> service c \<le> 10 \<and>
     1 \<le> atmosphere c \<and> atmosphere c \<le> 10"

text \<open>The categories of scenarios A and B.\<close>

definition scenario_categories :: RatingCategory where
  "scenario_categories =
     \<lparr>crowdSize = 6, noiseLevel = 5, socialEnergy = 7, service = 7, atmosphere = 8\<rparr>"

section \<open>The document store\<close>

text \<open>
  Every \<open>throw new Error(msg)\<close> of the services is the value \<open>Error msg\<close>. A service
  method returns its outcome together with the store as the call leaves it, so a method
  that throws after it has written is a branch of its own.
\<close>

datatype error = Error string

record LatLng =
  lat :: real
  lng :: real

record User =
  discordId :: "string option"
  totalGroupsJoined :: "int option"
  totalRatingsCount :: "int option"
  lastRatedPlaceLocation :: "LatLng option"

datatype GroupStatus = active | place_selected | archived

record FinalPlace =
  fp_placeId :: string
  fp_placeName :: string
  fp_selectedAt :: string
  fp_location :: "LatLng option"

text \<open>
  \<open>votes\<close> is the object \<open>{ [userId]: string[] }\<close>; it is kept as the list of its
  entries, in the order \<open>Object.entries\<close> yields them.
\<close>

record Group =
  createdBy :: string
  members :: "string list"
  votes :: "(string \<times> string list) list"
  status :: GroupStatus
  finalPlace :: "FinalPlace option"

record Rating =
  r_userId :: string
  userAdjustmentFactor :: real
  userPersonalityType :: string
  r_placeId :: string
  r_placeName :: string
  r_placeAddress :: string
  r_location :: LatLng
  categories :: RatingCategory
  overallScore :: real
  comment :: string
  createdAt :: string
  updatedAt :: string

record BucketStats =
  avgScore :: real
  count :: nat

record ByPersonality =
  introvert :: BucketStats
  ambivert :: BucketStats
  extrovert :: BucketStats

record PlaceStats =
  totalRatings :: nat
  avgOverallScore :: real
  byPersonality :: ByPersonality
  avgCategories :: RatingCategory
  lastRatedAt :: string

record Place =
  place_id :: string
  place_name :: string
  place_address :: string
  place_location :: LatLng
  stats :: PlaceStats
  place_lastRatedAt :: string

text \<open>
  A collection that is queried (\<open>where(...)\<close>) is the list of its documents, keyed by
  document id, in the order a query returns them; a collection that is only read and
  written by document id is a map.
\<close>

record db =
  usersCol :: "(string \<times> User) list"
  groupsCol :: "string \<rightharpoonup> Group"
  ratingsCol :: "(string \<times> Rating) list"
  placesCol :: "string \<rightharpoonup> Place"

text \<open>Setting a key of an object or a document of a collection: an existing key keeps
  its position and gets the new value, a new key goes to the end.\<close>

fun entry_set :: "('k \<times> 'v) list \<Rightarrow> 'k \<Rightarrow> 'v \<Rightarrow> ('k \<times> 'v) list" where
  "entry_set [] k v = [(k, v)]"
| "entry_set ((k', v') # rest) k v =
     (if k' = k then (k, v) # rest else (k', v') # entry_set rest k v)"

definition entry_delete :: "('k \<times> 'v) list \<Rightarrow> 'k \<Rightarrow> ('k \<times> 'v) list" where
  "entry_delete col k = filter (\<lambda>e. fst e \<noteq> k) col"

section \<open>Group service (group.service.ts)\<close>

text \<open>
  \<open>getUserByIdOrDiscordId\<close>: the id is tried as a document id first; otherwise the first
  user whose \<open>discordId\<close> equals it; otherwise the call throws.
\<close>

definition getUserByIdOrDiscordId :: "db \<Rightarrow> string \<Rightarrow> error + (string \<times> User)" where
  "getUserByIdOrDiscordId d userId =
     (case map_of (usersCol d) userId of
        Some u \<Rightarrow> Inr (userId, u)
      | None \<Rightarrow>
          (case find (\<lambda>e. discordId (snd e) = Some userId) (usersCol d) of
             None \<Rightarrow> Inl (Error (''User '' @ userId @ '' not found''))
           | Some e \<Rightarrow> Inr e))"

text \<open>
  \<open>updateUserGroupStats\<close>: if the user document exists, \<open>totalGroupsJoined\<close> becomes
  \<open>(user.totalGroupsJoined || 0) + increment\<close>.
\<close>

definition updateUserGroupStats :: "db \<Rightarrow> string \<Rightarrow> int \<Rightarrow> db" where
  "updateUserGroupStats d userId increment =
     (case map_of (usersCol d) userId of
        None \<Rightarrow> d
      | Some user \<Rightarrow>
          d\<lparr>usersCol := entry_set (usersCol d) userId
               (user\<lparr>totalGroupsJoined :=
                  Some ((case totalGroupsJoined user of None \<Rightarrow> 0 | Some n \<Rightarrow> n) + increment)\<rparr>)\<rparr>)"

text \<open>\<open>castVotes\<close>, check by check in the order of the source.\<close>

definition castVotes :: "db \<Rightarrow> string \<Rightarrow> string \<Rightarrow> string list \<Rightarrow> (error + unit) \<times> db" where
  "castVotes d groupId userId rankedPlaceIds =
     (if length rankedPlaceIds = 0 \<or> length rankedPlaceIds > 3 then
        (Inl (Error ''Must vote for 1-3 places''), d)
      else
        (case groupsCol d groupId of
           None \<Rightarrow> (Inl (Error ''Group not found''), d)
         | Some grp \<Rightarrow>
             (case getUserByIdOrDiscordId d userId of
                Inl e \<Rightarrow> (Inl e, d)
              | Inr (firebaseId, userData) \<Rightarrow>
                  if firebaseId \<notin> set (members grp) then
                    (Inl (Error ''User not in group''), d)
                  else
                    (Inr (),
                     d\<lparr>groupsCol := (groupsCol d)(groupId \<mapsto>
                          grp\<lparr>votes := entry_set (votes grp) firebaseId rankedPlaceIds\<rparr>)\<rparr>))))"






text \<open>
  \<open>finalizeSelection\<close>. The update writes the fields \<open>finalPlace.placeId\<close>,
  \<open>finalPlace.placeName\<close>, \<open>finalPlace.selectedAt\<close> and \<open>status\<close>, and
  \<open>finalPlace.location\<close> only when a location is passed: a location stored earlier stays.
  \<open>now\<close> is \<open>new Date().toISOString()\<close>. The group's status is not read.
\<close>

fun touch_members :: "db \<Rightarrow> string list \<Rightarrow> db" where
  "touch_members d [] = d"
| "touch_members d (memberId # rest) = touch_members (updateUserGroupStats d memberId 0) rest"

definition finalizeSelection ::
  "db \<Rightarrow> string \<Rightarrow> string \<Rightarrow> string \<Rightarrow> LatLng option \<Rightarrow> string \<Rightarrow> (error + unit) \<times> db" where
  "finalizeSelection d groupId placeId placeName location now =
     (case groupsCol d groupId of
        None \<Rightarrow> (Inl (Error ''Group not found''), d)
      | Some grp \<Rightarrow>
          (let keptLocation = (case finalPlace grp of None \<Rightarrow> None | Some fp \<Rightarrow> fp_location fp);
               updated = grp\<lparr>
                 finalPlace := Some \<lparr>fp_placeId = placeId, fp_placeName = placeName,
                   fp_selectedAt = now,
                   fp_location = (case location of Some l \<Rightarrow> Some l | None \<Rightarrow> keptLocation)\<rparr>,
                 status := place_selected\<rparr>;
               d1 = d\<lparr>groupsCol := (groupsCol d)(groupId \<mapsto> updated)\<rparr>
           in (Inr (), touch_members d1 (members grp))))"

section \<open>Ranked-choice winner of the bot (commands/group.ts, \<open>finalizeVoting\<close>)\<close>

text \<open>
  \<open>Array.prototype.sort\<close> with a comparison function is a stable sort: an element goes
  before the first element it does not compare greater than.
\<close>

fun insert_by :: "('a \<Rightarrow> 'a \<Rightarrow> 'b::{linorder,zero}) \<Rightarrow> 'a \<Rightarrow> 'a list \<Rightarrow> 'a list" where
  "insert_by cmp x [] = [x]"
| "insert_by cmp x (y # ys) =
     (if cmp x y \<le> 0 then x # y # ys else y # insert_by cmp x ys)"

definition Array_sort :: "('a \<Rightarrow> 'a \<Rightarrow> 'b::{linorder,zero}) \<Rightarrow> 'a list \<Rightarrow> 'a list" where
  "Array_sort cmp xs = foldr (insert_by cmp) xs []"









text \<open>
  An id names a current member of a group when the group exists and the user the id
  resolves to, as a document id or else as a Discord id, is in its \<open>members\<close>.
\<close>

definition current_member :: "db \<Rightarrow> string \<Rightarrow> string \<Rightarrow> bool" where
  "current_member d groupId userId \<longleftrightarrow>
     (case groupsCol d groupId of
        None \<Rightarrow> False
      | Some grp \<Rightarrow>
          (case getUserByIdOrDiscordId d userId of
             Inl e \<Rightarrow> False
           | Inr resolved \<Rightarrow> fst resolved \<in> set (members grp)))"

text \<open>The three ballots of scenario C, and a store holding them: the group \<open>g1\<close> of
  the voters \<open>u1\<close>, \<open>u2\<close>, \<open>u3\<close>, and a user \<open>u4\<close> outside the group; the same store
  with the group archived.\<close>

definition scenario_votes :: "(string \<times> string list) list" where
  "scenario_votes =
     [(''u1'', [''A'', ''B'', ''C'']), (''u2'', [''B'', ''A'', ''C'']), (''u3'', [''A'', ''C'', ''B''])]"

definition new_user :: User where
  "new_user = \<lparr>discordId = None, totalGroupsJoined = None, totalRatingsCount = None,
               lastRatedPlaceLocation = None\<rparr>"

definition scenario_group :: Group where
  "scenario_group =
     \<lparr>createdBy = ''u1'', members = [''u1'', ''u2'', ''u3''], votes = scenario_votes,
      status = active, finalPlace = None\<rparr>"

definition scenario_db :: db where
  "scenario_db =
     \<lparr>usersCol = [(''u1'', new_user), (''u2'', new_user\<lparr>discordId := Some ''d2''\<rparr>),
                 (''u3'', new_user), (''u4'', new_user)],
      groupsCol = [''g1'' \<mapsto> scenario_group],
      ratingsCol = [],
      placesCol = Map.empty\<rparr>"

definition archived_db :: db where
  "archived_db = scenario_db\<lparr>groupsCol := [''g1'' \<mapsto> scenario_group\<lparr>status := archived\<rparr>]\<rparr>"

section \<open>Rating aggregator (rating.service.ts)\<close>

text \<open>\<open>Math.round(x * 10) / 10\<close>, and \<open>xs.reduce((sum, r) => sum + f(r), 0)\<close>.\<close>

definition round1 :: "real \<Rightarrow> real" where
  "round1 x = real_of_int (Math_round (x * 10)) / 10"

definition reduce_sum :: "('a \<Rightarrow> real) \<Rightarrow> 'a list \<Rightarrow> real" where
  "reduce_sum f xs = foldl (\<lambda>sum r. sum + f r) 0 xs"

text \<open>\<open>getPlaceRatings\<close>: the documents of the query \<open>where('placeId', '==', placeId)\<close>.
  The document id that the source copies into each result is read by no consumer.\<close>

definition getPlaceRatings :: "db \<Rightarrow> string \<Rightarrow> Rating list" where
  "getPlaceRatings d placeId =
     map snd (filter (\<lambda>e. r_placeId (snd e) = placeId) (ratingsCol d))"

text \<open>\<open>byPersonality[type].avgScore += rating.overallScore; byPersonality[type].count += 1\<close>\<close>

definition bucket_add :: "string \<Rightarrow> real \<Rightarrow> ByPersonality \<Rightarrow> ByPersonality" where
  "bucket_add bucket s bp =
     (if bucket = ''introvert'' then
        bp\<lparr>introvert := \<lparr>avgScore = avgScore (introvert bp) + s, count = count (introvert bp) + 1\<rparr>\<rparr>
      else if bucket = ''ambivert'' then
        bp\<lparr>ambivert := \<lparr>avgScore = avgScore (ambivert bp) + s, count = count (ambivert bp) + 1\<rparr>\<rparr>
      else
        bp\<lparr>extrovert := \<lparr>avgScore = avgScore (extrovert bp) + s, count = count (extrovert bp) + 1\<rparr>\<rparr>)"

fun bucket_fill :: "Rating list \<Rightarrow> ByPersonality \<Rightarrow> ByPersonality" where
  "bucket_fill [] bp = bp"
| "bucket_fill (rating # rest) bp =
     bucket_fill rest
       (bucket_add (getPersonalityBucket (userAdjustmentFactor rating)) (overallScore rating) bp)"

definition bucket_average :: "BucketStats \<Rightarrow> BucketStats" where
  "bucket_average bucket =
     (if count bucket > 0 then bucket\<lparr>avgScore := round1 (avgScore bucket / real (count bucket))\<rparr>
      else bucket)"

definition empty_buckets :: ByPersonality where
  "empty_buckets =
     \<lparr>introvert = \<lparr>avgScore = 0, count = 0\<rparr>,
      ambivert = \<lparr>avgScore = 0, count = 0\<rparr>,
      extrovert = \<lparr>avgScore = 0, count = 0\<rparr>\<rparr>"

text \<open>\<open>calculatePlaceStats\<close>; \<open>now\<close> is \<open>new Date().toISOString()\<close>, one instant for a call
  of a service method.\<close>

definition calculatePlaceStats :: "Rating list \<Rightarrow> string \<Rightarrow> PlaceStats" where
  "calculatePlaceStats ratings now =
     (if length ratings = 0 then
        \<lparr>totalRatings = 0, avgOverallScore = 0, byPersonality = empty_buckets,
         avgCategories = \<lparr>crowdSize = 0, noiseLevel = 0, socialEnergy = 0, service = 0, atmosphere = 0\<rparr>,
         lastRatedAt = now\<rparr>
      else
        (let n = real (length ratings);
             filled = bucket_fill ratings empty_buckets
         in \<lparr>totalRatings = length ratings,
             avgOverallScore = round1 (reduce_sum overallScore ratings / n),
             byPersonality =
               \<lparr>introvert = bucket_average (introvert filled),
                ambivert = bucket_average (ambivert filled),
                extrovert = bucket_average (extrovert filled)\<rparr>,
             avgCategories =
               \<lparr>crowdSize = round1 (reduce_sum (\<lambda>r. crowdSize (categories r)) ratings / n),
                noiseLevel = round1 (reduce_sum (\<lambda>r. noiseLevel (categories r)) ratings / n),
                socialEnergy = round1 (reduce_sum (\<lambda>r. socialEnergy (categories r)) ratings / n),
                service = round1 (reduce_sum (\<lambda>r. service (categories r)) ratings / n),
                atmosphere = round1 (reduce_sum (\<lambda>r. atmosphere (categories r)) ratings / n)\<rparr>,
             lastRatedAt = now\<rparr>))"

text \<open>
  \<open>updatePlaceStats\<close>: the statistics of all ratings the place has now; the document is
  created when it does not exist and updated otherwise. The score, categories and
  personality the source also passes are not read by its body.
\<close>

definition updatePlaceStats :: "db \<Rightarrow> string \<Rightarrow> string \<Rightarrow> string \<Rightarrow> LatLng \<Rightarrow> string \<Rightarrow> db" where
  "updatePlaceStats d placeId placeName placeAddress location now =
     (let ratings = getPlaceRatings d placeId;
          newStats = calculatePlaceStats ratings now
      in case placesCol d placeId of
           None \<Rightarrow>
             d\<lparr>placesCol := (placesCol d)(placeId \<mapsto>
                 \<lparr>place_id = placeId, place_name = placeName, place_address = placeAddress,
                  place_location = location, stats = newStats, place_lastRatedAt = now\<rparr>)\<rparr>
         | Some place \<Rightarrow>
             d\<lparr>placesCol := (placesCol d)(placeId \<mapsto>
                 place\<lparr>stats := newStats, place_lastRatedAt := now\<rparr>)\<rparr>)"

text \<open>
  \<open>recalculatePlaceStats\<close>: with no rating left the place document is deleted; otherwise
  it is updated, and the update of a document that does not exist is refused by the store.
\<close>

definition recalculatePlaceStats :: "db \<Rightarrow> string \<Rightarrow> string \<Rightarrow> (error + unit) \<times> db" where
  "recalculatePlaceStats d placeId now =
     (let ratings = getPlaceRatings d placeId
      in if length ratings = 0 then
           (Inr (), d\<lparr>placesCol := (placesCol d)(placeId := None)\<rparr>)
         else
           (case placesCol d placeId of
              None \<Rightarrow> (Inl (Error ''No document to update''), d)
            | Some place \<Rightarrow>
                (Inr (), d\<lparr>placesCol := (placesCol d)(placeId \<mapsto>
                   place\<lparr>stats := calculatePlaceStats ratings now, place_lastRatedAt := now\<rparr>)\<rparr>)))"

definition updateUserRatingStats :: "db \<Rightarrow> string \<Rightarrow> LatLng \<Rightarrow> db" where
  "updateUserRatingStats d userId location =
     (case map_of (usersCol d) userId of
        None \<Rightarrow> d
      | Some user \<Rightarrow>
          d\<lparr>usersCol := entry_set (usersCol d) userId
               (user\<lparr>lastRatedPlaceLocation := Some location,
                     totalRatingsCount :=
                       Some ((case totalRatingsCount user of None \<Rightarrow> 0 | Some n \<Rightarrow> n) + 1)\<rparr>)\<rparr>)"

text \<open>
  \<open>createRating\<close>. \<open>newId\<close> is the id of the document reference the store generates
  (\<open>ratingsCol.doc()\<close>). \<open>algolia\<close> says whether the search index is configured:
  \<open>syncPlaceToAlgolia\<close> and \<open>deletePlaceFromAlgolia\<close> throw when it is not, after the
  store has been written.
\<close>

definition createRating ::
  "db \<Rightarrow> string \<Rightarrow> string \<Rightarrow> string \<Rightarrow> string \<Rightarrow> string \<Rightarrow> LatLng \<Rightarrow> RatingCategory \<Rightarrow> string \<Rightarrow>
   real \<Rightarrow> string \<Rightarrow> string \<Rightarrow> bool \<Rightarrow> (error + string \<times> Rating) \<times> db" where
  "createRating d newId userId placeId placeName placeAddress location cats commentText
     userAF userType now algolia =
     (let ratingData =
            \<lparr>r_userId = userId, userAdjustmentFactor = userAF, userPersonalityType = userType,
             r_placeId = placeId, r_placeName = placeName, r_placeAddress = placeAddress,
             r_location = location, categories = cats,
             overallScore = calculateOverallScore cats userAF,
             comment = commentText, createdAt = now, updatedAt = now\<rparr>;
          d1 = d\<lparr>ratingsCol := entry_set (ratingsCol d) newId ratingData\<rparr>;
          d2 = updatePlaceStats d1 placeId placeName placeAddress location now
      in if placesCol d2 placeId \<noteq> None \<and> \<not> algolia then
           (Inl (Error ''Algolia credentials missing''), d2)
         else (Inr (newId, ratingData), updateUserRatingStats d2 userId location))"

text \<open>\<open>updates: Partial<Rating>\<close>: every field of a rating may be present or absent.\<close>

record RatingUpdates =
  u_userId :: "string option"
  u_userAdjustmentFactor :: "real option"
  u_userPersonalityType :: "string option"
  u_placeId :: "string option"
  u_placeName :: "string option"
  u_placeAddress :: "string option"
  u_location :: "LatLng option"
  u_categories :: "RatingCategory option"
  u_overallScore :: "real option"
  u_comment :: "string option"
  u_createdAt :: "string option"
  u_updatedAt :: "string option"

definition or_keep :: "'a option \<Rightarrow> 'a \<Rightarrow> 'a" where
  "or_keep new old = (case new of None \<Rightarrow> old | Some v \<Rightarrow> v)"

definition apply_updates :: "RatingUpdates \<Rightarrow> Rating \<Rightarrow> Rating" where
  "apply_updates u r =
     \<lparr>r_userId = or_keep (u_userId u) (r_userId r),
      userAdjustmentFactor = or_keep (u_userAdjustmentFactor u) (userAdjustmentFactor r),
      userPersonalityType = or_keep (u_userPersonalityType u) (userPersonalityType r),
      r_placeId = or_keep (u_placeId u) (r_placeId r),
      r_placeName = or_keep (u_placeName u) (r_placeName r),
      r_placeAddress = or_keep (u_placeAddress u) (r_placeAddress r),
      r_location = or_keep (u_location u) (r_location r),
      categories = or_keep (u_categories u) (categories r),
      overallScore = or_keep (u_overallScore u) (overallScore r),
      comment = or_keep (u_comment u) (comment r),
      createdAt = or_keep (u_createdAt u) (createdAt r),
      updatedAt = or_keep (u_updatedAt u) (updatedAt r)\<rparr>"

text \<open>\<open>updates.categories || updates.overallScore\<close>: an object is truthy, a number is
  truthy unless it is 0.\<close>

definition stats_changed :: "RatingUpdates \<Rightarrow> bool" where
  "stats_changed u \<longleftrightarrow>
     u_categories u \<noteq> None \<or> (case u_overallScore u of None \<Rightarrow> False | Some v \<Rightarrow> v \<noteq> 0)"

definition updateRating :: "db \<Rightarrow> string \<Rightarrow> RatingUpdates \<Rightarrow> string \<Rightarrow> (error + unit) \<times> db" where
  "updateRating d ratingId updates now =
     (case map_of (ratingsCol d) ratingId of
        None \<Rightarrow> (Inl (Error ''Rating not found''), d)
      | Some oldRating \<Rightarrow>
          (let updatesToApply = updates\<lparr>
                 u_overallScore :=
                   (case u_categories updates of
                      Some c \<Rightarrow> Some (calculateOverallScore c (userAdjustmentFactor oldRating))
                    | None \<Rightarrow> u_overallScore updates),
                 u_updatedAt := Some now\<rparr>;
               d1 = d\<lparr>ratingsCol :=
                      entry_set (ratingsCol d) ratingId (apply_updates updatesToApply oldRating)\<rparr>
           in if stats_changed updates then
                (Inr (), updatePlaceStats d1 (r_placeId oldRating) (r_placeName oldRating)
                           (r_placeAddress oldRating) (r_location oldRating) now)
              else (Inr (), d1)))"

definition deleteRating :: "db \<Rightarrow> string \<Rightarrow> string \<Rightarrow> bool \<Rightarrow> (error + unit) \<times> db" where
  "deleteRating d ratingId now algolia =
     (case map_of (ratingsCol d) ratingId of
        None \<Rightarrow> (Inl (Error ''Rating not found''), d)
      | Some rating \<Rightarrow>
          (let d1 = d\<lparr>ratingsCol := entry_delete (ratingsCol d) ratingId\<rparr>
           in case recalculatePlaceStats d1 (r_placeId rating) now of
                (Inl e, d2) \<Rightarrow> (Inl e, d2)
              | (Inr u, d2) \<Rightarrow>
                  if placesCol d2 (r_placeId rating) = None then
                    (if algolia then (Inr (), d2)
                     else (Inl (Error ''Algolia credentials not configured''), d2))
                  else
                    (if algolia then (Inr (), d2)
                     else (Inl (Error ''Algolia credentials missing''), d2))))"

text \<open>
  The store is consistent when its rating documents have distinct ids and the places
  that have an aggregate document are exactly the places some rating refers to.
\<close>

definition place_invariant :: "db \<Rightarrow> bool" where
  "place_invariant d \<longleftrightarrow>
     distinct (map fst (ratingsCol d)) \<and>
     dom (placesCol d) = set (map (\<lambda>e. r_placeId (snd e)) (ratingsCol d))"

text \<open>The aggregate of a place is recomputed at \<open>now\<close> when its document holds the
  statistics of all ratings of the place, stamped \<open>now\<close>.\<close>

definition recomputed :: "db \<Rightarrow> string \<Rightarrow> string \<Rightarrow> bool" where
  "recomputed d placeId now \<longleftrightarrow>
     (case placesCol d placeId of
        None \<Rightarrow> False
      | Some place \<Rightarrow>
          stats place = calculatePlaceStats (getPlaceRatings d placeId) now \<and>
          place_lastRatedAt place = now)"

section \<open>The feed of places (routes/explore.ts, \<open>GET /api/explore/places\<close>)\<close>

record Recommendation =
  rec_id :: string
  rec_name :: string
  rec_address :: string
  rec_location :: LatLng
  predictedScore :: real
  confidence :: real
  rec_totalRatings :: nat
  similarRatings :: nat
  isUnrated :: bool

text \<open>
  The body of the loop over the nearby places: an unrated place gets the neutral score,
  a rated one the mean of the viewer-adjusted scores of all its ratings, rounded to one
  decimal, and the confidence as a rounded percentage.
\<close>

definition recommend :: "db \<Rightarrow> real \<Rightarrow> Place \<Rightarrow> Recommendation" where
  "recommend d userAF place =
     (let ratings = getPlaceRatings d (place_id place)
      in if length ratings = 0 then
           \<lparr>rec_id = place_id place, rec_name = place_name place,
            rec_address = place_address place, rec_location = place_location place,
            predictedScore = 5.0, confidence = 0, rec_totalRatings = 0, similarRatings = 0,
            isUnrated = True\<rparr>
         else
           (let adjustedRatings =
                  map (\<lambda>rating. calculateAdjustedScoreForViewer (categories rating)
                                  (userAdjustmentFactor rating) userAF) ratings;
                avgAdjustedScore =
                  reduce_sum (\<lambda>r. r) adjustedRatings / real (length adjustedRatings);
                conf = min (real (length ratings) / 10) 1
            in \<lparr>rec_id = place_id place, rec_name = place_name place,
                rec_address = place_address place, rec_location = place_location place,
                predictedScore = real_of_int (Math_round (avgAdjustedScore * 10)) / 10,
                confidence = real_of_int (Math_round (conf * 100)),
                rec_totalRatings = length ratings, similarRatings = length adjustedRatings,
                isUnrated = False\<rparr>))"

definition compare_recommendations :: "Recommendation \<Rightarrow> Recommendation \<Rightarrow> real" where
  "compare_recommendations a b =
     (if isUnrated a \<and> \<not> isUnrated b then 1
      else if \<not> isUnrated a \<and> isUnrated b then - 1
      else if isUnrated a \<and> isUnrated b then 0
      else (let scoreA = predictedScore a * (confidence a / 100);
                scoreB = predictedScore b * (confidence b / 100)
            in scoreB - scoreA))"

text \<open>The response: the sorted recommendations, cut to \<open>limit\<close>. The viewer's factor and
  the nearby places come from the user document and from the geosearch.\<close>

definition explore_places :: "db \<Rightarrow> real \<Rightarrow> Place list \<Rightarrow> nat \<Rightarrow> Recommendation list" where
  "explore_places d userAF nearbyPlaces limit =
     take limit (Array_sort compare_recommendations (map (recommend d userAF) nearbyPlaces))"



section \<open>Example stores\<close>

text \<open>
  A store for the feed: the place \<open>p1\<close> with three ratings by ambiverts (two with the
  categories of the scenarios, one with service 8), the place \<open>p3\<close> with one rating, and
  the places \<open>cafe\<close> (\<open>p1\<close>), \<open>bar\<close> (\<open>p2\<close>, no rating) and \<open>diner\<close> (\<open>p3\<close>) as the
  geosearch returns them.
\<close>

definition scenario_rating :: Rating where
  "scenario_rating =
     \<lparr>r_userId = ''u1'', userAdjustmentFactor = 0, userPersonalityType = ''Ambivert'',
      r_placeId = ''p1'', r_placeName = ''Cafe'', r_placeAddress = ''1 Main St'',
      r_location = \<lparr>lat = 0, lng = 0\<rparr>, categories = scenario_categories,
      overallScore = 6.8, comment = [], createdAt = ''t0'', updatedAt = ''t0''\<rparr>"

definition feed_db :: db where
  "feed_db =
     \<lparr>usersCol = [], groupsCol = Map.empty,
      ratingsCol =
        [(''r1'', scenario_rating),
         (''r2'', scenario_rating\<lparr>r_userId := ''u2''\<rparr>),
         (''r3'', scenario_rating\<lparr>r_userId := ''u3'',
                    categories := scenario_categories\<lparr>service := 8\<rparr>, overallScore := 7\<rparr>),
         (''r4'', scenario_rating\<lparr>r_userId := ''u4'', r_placeId := ''p3'',
                    r_placeName := ''Diner'', r_placeAddress := ''3 Main St''\<rparr>)],
      placesCol = Map.empty\<rparr>"

definition cafe :: Place where
  "cafe =
     \<lparr>place_id = ''p1'', place_name = ''Cafe'', place_address = ''1 Main St'',
      place_location = \<lparr>lat = 0, lng = 0\<rparr>,
      stats = calculatePlaceStats (getPlaceRatings feed_db ''p1'') ''t0'',
      place_lastRatedAt = ''t0''\<rparr>"

definition diner :: Place where
  "diner =
     \<lparr>place_id = ''p3'', place_name = ''Diner'', place_address = ''3 Main St'',
      place_location = \<lparr>lat = 0, lng = 0\<rparr>,
      stats = calculatePlaceStats (getPlaceRatings feed_db ''p3'') ''t0'',
      place_lastRatedAt = ''t0''\<rparr>"

definition bar :: Place where
  "bar =
     \<lparr>place_id = ''p2'', place_name = ''Bar'', place_address = ''2 Main St'',
      place_location = \<lparr>lat = 0, lng = 0\<rparr>,
      stats = calculatePlaceStats [] ''t0'', place_lastRatedAt = ''t0''\<rparr>"

text \<open>
  A store for the aggregator: the empty store after one call of \<open>createRating\<close>, which
  leaves the rating \<open>r1\<close> of the place \<open>p1\<close> and the aggregate of \<open>p1\<close> computed at \<open>t0\<close>;
  and an edit that changes the comment only.
\<close>

definition empty_db :: db where
  "empty_db = \<lparr>usersCol = [], groupsCol = Map.empty, ratingsCol = [], placesCol = Map.empty\<rparr>"

definition rated_db :: db where
  "rated_db =
     snd (createRating empty_db ''r1'' ''u1'' ''p1'' ''Cafe'' ''1 Main St'' \<lparr>lat = 0, lng = 0\<rparr>
            scenario_categories [] 0 ''Ambivert'' ''t0'' True)"

definition comment_only :: RatingUpdates where
  "comment_only =
     \<lparr>u_userId = None, u_userAdjustmentFactor = None, u_userPersonalityType = None,
      u_placeId = None, u_placeName = None, u_placeAddress = None, u_location = None,
      u_categories = None, u_overallScore = None, u_comment = Some ''Even better now!'',
      u_createdAt = None, u_updatedAt = None\<rparr>"

text \<open>The same store after a second rating of \<open>p1\<close>, an edit that changes the categories,
  and an edit that moves the rating to another place.\<close>

definition two_db :: db where
  "two_db =
     snd (createRating rated_db ''r2'' ''u2'' ''p1'' ''Cafe'' ''1 Main St'' \<lparr>lat = 0, lng = 0\<rparr>
            (scenario_categories\<lparr>service := 8\<rparr>) [] 0 ''Ambivert'' ''t1'' True)"

definition new_scores :: RatingUpdates where
  "new_scores = comment_only\<lparr>u_categories := Some (scenario_categories\<lparr>atmosphere := 9\<rparr>)\<rparr>"

definition new_place :: RatingUpdates where
  "new_place = comment_only\<lparr>u_placeId := Some ''p2''\<rparr>"

section \<open>Properties of the personality adjuster\<close>

lemma adjust_valid:
  "valid_categories c \<Longrightarrow> valid_categories (adjustCategoriesForPersonality c a)"
  unfolding valid_categories_def adjustCategoriesForPersonality_def by simp

lemma weighted_sum_bounds:
  "valid_categories c \<Longrightarrow> 1 \<le> weighted_sum c \<and> weighted_sum c \<le> 10"
  unfolding valid_categories_def weighted_sum_def by auto

lemma round_tenth_bounds:
  assumes "1 \<le> w" and "w \<le> 10"
  shows "1 \<le> real_of_int (Math_round (w * 10)) / 10
         \<and> real_of_int (Math_round (w * 10)) / 10 \<le> 10"
proof -
  have lo: "10 \<le> Math_round (w * 10)"
    unfolding Math_round_def using assms(1) by (simp add: le_floor_iff)
  have hi: "Math_round (w * 10) \<le> 100"
    unfolding Math_round_def using assms(2) by (simp add: floor_le_iff)
  from lo hi show ?thesis by simp
qed


text \<open>
  C7. For a category record whose five dimensions lie in [1,10] and any adjustment
  factor, the overall score lies in [1,10]: the inversion keeps every dimension in
  range, the weights add up to 1, and rounding to one decimal cannot leave the range
  because its ends are multiples of a tenth.
\<close>

theorem overall_score_range:
  "valid_categories c \<Longrightarrow> 1 \<le> calculateOverallScore c a \<and> calculateOverallScore c a \<le> 10"
  unfolding calculateOverallScore_def Let_def
  using round_tenth_bounds weighted_sum_bounds adjust_valid by blast

theorem overall_score_range_witness:
  "valid_categories scenario_categories
   \<and> 1 \<le> calculateOverallScore scenario_categories (- 0.5)
   \<and> calculateOverallScore scenario_categories (- 0.5) \<le> 10"
proof -
  have h: "valid_categories scenario_categories"
    by (simp add: valid_categories_def scenario_categories_def)
  from overall_score_range [OF h, of "- 0.5"] h show ?thesis by simp
qed

text \<open>
  C8, as stated: with the categories of the scenarios and the introvert factor -0.5 the
  overall score would be 6.05. It is not: 6.05 is the weighted sum before
  \<open>calculateOverallScore\<close> rounds it to one decimal.
\<close>

theorem scenario_B_not_6_05:
  "calculateOverallScore scenario_categories (- 0.5) \<noteq> 6.05"
  by (simp add: calculateOverallScore_def adjustCategoriesForPersonality_def weighted_sum_def
      scenario_categories_def Math_round_def)

text \<open>
  C8, amended. For the categories atmosphere 8, socialEnergy 7, crowdSize 6, noiseLevel 5,
  service 7: with factor 0 the overall score is 6.8; with factor -0.5 the adjusted
  personality-sensitive values are crowdSize 5, noiseLevel 6, socialEnergy 4, the
  weighted sum is 6.05, and the overall score, rounded to one decimal, is 6.1.
\<close>

theorem scenario_A_B_scores:
  "calculateOverallScore scenario_categories 0 = 6.8
   \<and> adjustCategoriesForPersonality scenario_categories (- 0.5) =
       \<lparr>crowdSize = 5, noiseLevel = 6, socialEnergy = 4, service = 7, atmosphere = 8\<rparr>
   \<and> weighted_sum (adjustCategoriesForPersonality scenario_categories (- 0.5)) = 6.05
   \<and> calculateOverallScore scenario_categories (- 0.5) = 6.1"
  by (simp add: calculateOverallScore_def adjustCategoriesForPersonality_def weighted_sum_def
      scenario_categories_def Math_round_def)


section \<open>Properties of the group service and of the vote\<close>


lemma map_of_entry_set: "map_of (entry_set xs k v) = (map_of xs)(k \<mapsto> v)"
  by (induction xs) (auto simp: fun_eq_iff)

lemma keys_entry_set: "fst ` set (entry_set xs k v) = insert k (fst ` set xs)"
proof (induction xs)
  case Nil
  then show ?case by simp
next
  case (Cons e xs)
  obtain k' v' where e: "e = (k', v')" by (cases e)
  show ?case using Cons.IH by (cases "k' = k") (auto simp: e)
qed

lemma distinct_entry_set:
  "distinct (map fst xs) \<Longrightarrow> distinct (map fst (entry_set xs k v))"
proof (induction xs)
  case Nil
  then show ?case by simp
next
  case (Cons e xs)
  obtain k' v' where e: "e = (k', v')" by (cases e)
  show ?case
  proof (cases "k' = k")
    case True
    with Cons.prems e show ?thesis by simp
  next
    case False
    have "k' \<notin> fst ` set (entry_set xs k v)"
      using Cons.prems e False by (simp add: keys_entry_set)
    with Cons e False show ?thesis by simp
  qed
qed

subsection \<open>The tally of the service\<close>




subsection \<open>The tally of the bot\<close>








subsection \<open>The sort\<close>

lemma set_insert_by: "set (insert_by cmp x ys) = insert x (set ys)"
  by (induction ys) auto

lemma set_Array_sort: "set (Array_sort cmp xs) = set xs"
  unfolding Array_sort_def by (induction xs) (auto simp: set_insert_by)

lemma length_insert_by: "length (insert_by cmp x ys) = Suc (length ys)"
  by (induction ys) auto

lemma length_Array_sort: "length (Array_sort cmp xs) = length xs"
  unfolding Array_sort_def by (induction xs) (auto simp: length_insert_by)

lemma sorted_insert_by:
  assumes tr: "\<And>a b c. cmp a b \<le> 0 \<Longrightarrow> cmp b c \<le> 0 \<Longrightarrow> cmp a c \<le> 0"
    and tot: "\<And>a b. \<not> cmp a b \<le> 0 \<Longrightarrow> cmp b a \<le> 0"
    and srt: "sorted_wrt (\<lambda>a b. cmp a b \<le> 0) ys"
  shows "sorted_wrt (\<lambda>a b. cmp a b \<le> 0) (insert_by cmp x ys)"
  using srt
proof (induction ys)
  case Nil
  then show ?case by simp
next
  case (Cons y ys)
  show ?case
  proof (cases "cmp x y \<le> 0")
    case True
    have "\<forall>z\<in>set ys. cmp x z \<le> 0"
      using Cons.prems True tr by auto
    with True Cons.prems show ?thesis by simp
  next
    case False
    then have "cmp y x \<le> 0" by (rule tot)
    with False Cons show ?thesis by (auto simp: set_insert_by)
  qed
qed

lemma sorted_Array_sort:
  assumes tr: "\<And>a b c. cmp a b \<le> 0 \<Longrightarrow> cmp b c \<le> 0 \<Longrightarrow> cmp a c \<le> 0"
    and tot: "\<And>a b. \<not> cmp a b \<le> 0 \<Longrightarrow> cmp b a \<le> 0"
  shows "sorted_wrt (\<lambda>a b. cmp a b \<le> 0) (Array_sort cmp xs)"
  unfolding Array_sort_def
proof (induction xs)
  case Nil
  then show ?case by simp
next
  case (Cons x xs)
  have "sorted_wrt (\<lambda>a b. cmp a b \<le> 0) (insert_by cmp x (foldr (insert_by cmp) xs []))"
    using tr tot Cons.IH by (rule sorted_insert_by)
  then show ?case by simp
qed



lemma groupsCol_updateUserGroupStats: "groupsCol (updateUserGroupStats d u i) = groupsCol d"
  by (simp add: updateUserGroupStats_def split: option.splits)

lemma groupsCol_touch_members: "groupsCol (touch_members d ms) = groupsCol d"
  by (induction ms arbitrary: d) (simp_all add: groupsCol_updateUserGroupStats)

lemma castVotes_member_ok:
  assumes "1 \<le> length r" "length r \<le> 3" "current_member d g u"
  shows "fst (castVotes d g u r) = Inr ()"
  using assms
  by (auto simp: castVotes_def current_member_def split: option.splits sum.splits)




lemma castVotes_success:
  assumes "fst (castVotes d g u r) = Inr ()"
  shows "\<exists>grp fid usr. groupsCol d g = Some grp \<and> getUserByIdOrDiscordId d u = Inr (fid, usr)
           \<and> fid \<in> set (members grp) \<and> 1 \<le> length r \<and> length r \<le> 3
           \<and> snd (castVotes d g u r) =
               d\<lparr>groupsCol := (groupsCol d)(g \<mapsto> grp\<lparr>votes := entry_set (votes grp) fid r\<rparr>)\<rparr>"
  using assms
  by (auto simp: castVotes_def Suc_le_eq split: option.splits sum.splits if_splits)

lemma castVotes_nonmember:
  assumes "\<not> current_member d g u"
  shows "\<exists>e. castVotes d g u r = (Inl e, d)"
  using assms
  by (auto simp: castVotes_def current_member_def split: option.splits sum.splits)

text \<open>
  C6. \<open>castVotes\<close> throws, leaving the store as it was, when the ranked list is empty or
  longer than three, and when the id names no current member of the group. For a list of
  one to three entries and a current member it succeeds and writes the list as that
  member's entry of \<open>votes\<close>: the votes are the earlier votes with this member's entry
  replaced by the new list.
\<close>

theorem castVotes_contract:
  "(length r0 = 0 \<or> 3 < length r0 \<longrightarrow>
      castVotes d0 g0 u0 r0 = (Inl (Error ''Must vote for 1-3 places''), d0))
   \<and> (\<not> current_member d1 g1 u1 \<longrightarrow> (\<exists>e. castVotes d1 g1 u1 r1 = (Inl e, d1)))
   \<and> (1 \<le> length r \<and> length r \<le> 3 \<and> current_member d g u \<longrightarrow>
        (\<exists>grp fid usr. groupsCol d g = Some grp \<and> getUserByIdOrDiscordId d u = Inr (fid, usr)
           \<and> castVotes d g u r =
               (Inr (), d\<lparr>groupsCol := (groupsCol d)(g \<mapsto>
                          grp\<lparr>votes := entry_set (votes grp) fid r\<rparr>)\<rparr>)
           \<and> map_of (entry_set (votes grp) fid r) = (map_of (votes grp))(fid \<mapsto> r)))"
proof (intro conjI impI)
  assume "length r0 = 0 \<or> 3 < length r0"
  then show "castVotes d0 g0 u0 r0 = (Inl (Error ''Must vote for 1-3 places''), d0)"
    by (auto simp: castVotes_def)
next
  assume "\<not> current_member d1 g1 u1"
  then show "\<exists>e. castVotes d1 g1 u1 r1 = (Inl e, d1)"
    by (rule castVotes_nonmember)
next
  assume a: "1 \<le> length r \<and> length r \<le> 3 \<and> current_member d g u"
  then have ok: "fst (castVotes d g u r) = Inr ()"
    using castVotes_member_ok by blast
  from castVotes_success [OF ok] obtain grp fid usr where
    h: "groupsCol d g = Some grp" "getUserByIdOrDiscordId d u = Inr (fid, usr)"
      "snd (castVotes d g u r) =
         d\<lparr>groupsCol := (groupsCol d)(g \<mapsto> grp\<lparr>votes := entry_set (votes grp) fid r\<rparr>)\<rparr>"
    by blast
  from ok h(3) have "castVotes d g u r =
      (Inr (), d\<lparr>groupsCol := (groupsCol d)(g \<mapsto> grp\<lparr>votes := entry_set (votes grp) fid r\<rparr>)\<rparr>)"
    by (metis prod.collapse)
  moreover have "map_of (entry_set (votes grp) fid r) = (map_of (votes grp))(fid \<mapsto> r)"
    by (rule map_of_entry_set)
  ultimately show "\<exists>grp fid usr. groupsCol d g = Some grp \<and> getUserByIdOrDiscordId d u = Inr (fid, usr)
           \<and> castVotes d g u r =
               (Inr (), d\<lparr>groupsCol := (groupsCol d)(g \<mapsto>
                          grp\<lparr>votes := entry_set (votes grp) fid r\<rparr>)\<rparr>)
           \<and> map_of (entry_set (votes grp) fid r) = (map_of (votes grp))(fid \<mapsto> r)"
    using h(1,2) by (intro exI conjI)
qed

text \<open>The theorem at the store of the scenario: an empty list, the outsider \<open>u4\<close>, and the
  member \<open>u2\<close>, named by a Discord id, voting again.\<close>

theorem castVotes_contract_witness:
  "(length ([] :: string list) = 0 \<or> 3 < length ([] :: string list))
   \<and> castVotes scenario_db ''g1'' ''u1'' [] = (Inl (Error ''Must vote for 1-3 places''), scenario_db)
   \<and> \<not> current_member scenario_db ''g1'' ''u4''
   \<and> (\<exists>e. castVotes scenario_db ''g1'' ''u4'' [''A''] = (Inl e, scenario_db))
   \<and> 1 \<le> length [''C''] \<and> length [''C''] \<le> 3 \<and> current_member scenario_db ''g1'' ''d2''
   \<and> (\<exists>grp fid usr. groupsCol scenario_db ''g1'' = Some grp
         \<and> getUserByIdOrDiscordId scenario_db ''d2'' = Inr (fid, usr)
         \<and> castVotes scenario_db ''g1'' ''d2'' [''C''] =
             (Inr (), scenario_db\<lparr>groupsCol := (groupsCol scenario_db)(''g1'' \<mapsto>
                        grp\<lparr>votes := entry_set (votes grp) fid [''C'']\<rparr>)\<rparr>)
         \<and> map_of (entry_set (votes grp) fid [''C'']) = (map_of (votes grp))(fid \<mapsto> [''C'']))"
proof -
  have h1: "length ([] :: string list) = 0 \<or> 3 < length ([] :: string list)" by simp
  have h2: "\<not> current_member scenario_db ''g1'' ''u4''"
    by (simp add: current_member_def scenario_db_def scenario_group_def
        getUserByIdOrDiscordId_def)
  have h3: "1 \<le> length [''C''] \<and> length [''C''] \<le> 3 \<and> current_member scenario_db ''g1'' ''d2''"
    by (simp add: current_member_def scenario_db_def scenario_group_def
        getUserByIdOrDiscordId_def new_user_def)
  note t = castVotes_contract [of "[]" scenario_db "''g1''" "''u1''" scenario_db "''g1''" "''u4''"
      "[''A'']" "[''C'']" scenario_db "''g1''" "''d2''"]
  from t h1 have c1: "castVotes scenario_db ''g1'' ''u1'' [] =
      (Inl (Error ''Must vote for 1-3 places''), scenario_db)" by blast
  from t h2 have c2: "\<exists>e. castVotes scenario_db ''g1'' ''u4'' [''A''] = (Inl e, scenario_db)"
    by blast
  from t h3 have c3: "\<exists>grp fid usr. groupsCol scenario_db ''g1'' = Some grp
         \<and> getUserByIdOrDiscordId scenario_db ''d2'' = Inr (fid, usr)
         \<and> castVotes scenario_db ''g1'' ''d2'' [''C''] =
             (Inr (), scenario_db\<lparr>groupsCol := (groupsCol scenario_db)(''g1'' \<mapsto>
                        grp\<lparr>votes := entry_set (votes grp) fid [''C'']\<rparr>)\<rparr>)
         \<and> map_of (entry_set (votes grp) fid [''C'']) = (map_of (votes grp))(fid \<mapsto> [''C''])"
    by blast
  from h1 c1 h2 c2 h3 c3 show ?thesis by blast
qed

text \<open>
  C3, as stated: finalising or voting in a group that is not active would be rejected or
  change nothing. On the archived group both calls succeed: \<open>finalizeSelection\<close> moves
  the group from \<open>archived\<close> to \<open>place_selected\<close>, and \<open>castVotes\<close> stores the ballot.
\<close>

theorem finalize_on_archived_group:
  "map_option status (groupsCol archived_db ''g1'') = Some archived
   \<and> fst (finalizeSelection archived_db ''g1'' ''B'' ''Place B'' None ''t1'') = Inr ()
   \<and> map_option status
        (groupsCol (snd (finalizeSelection archived_db ''g1'' ''B'' ''Place B'' None ''t1'')) ''g1'')
       = Some place_selected
   \<and> fst (castVotes archived_db ''g1'' ''u1'' [''C'']) = Inr ()
   \<and> map_option (\<lambda>grp. map_of (votes grp) ''u1'')
        (groupsCol (snd (castVotes archived_db ''g1'' ''u1'' [''C''])) ''g1'') = Some (Some [''C''])"
  by (simp add: archived_db_def scenario_db_def scenario_group_def scenario_votes_def
      finalizeSelection_def castVotes_def getUserByIdOrDiscordId_def new_user_def
      groupsCol_updateUserGroupStats Let_def)

text \<open>
  C3, amended. Neither operation reads the status. On an existing group of any status
  \<open>finalizeSelection\<close> succeeds, sets the status to \<open>place_selected\<close> and writes the
  place, its name and the time into \<open>finalPlace\<close>, keeping members and votes; it throws
  only when the group does not exist. On an existing group of any status \<open>castVotes\<close>
  succeeds for a current member and a list of one to three entries.
\<close>

theorem status_is_not_checked:
  "(groupsCol d g = Some grp \<and> status grp = s \<longrightarrow>
      fst (finalizeSelection d g p n loc now) = Inr ()
      \<and> (\<exists>grp'. groupsCol (snd (finalizeSelection d g p n loc now)) g = Some grp'
            \<and> status grp' = place_selected
            \<and> map_option fp_placeId (finalPlace grp') = Some p
            \<and> map_option fp_placeName (finalPlace grp') = Some n
            \<and> map_option fp_selectedAt (finalPlace grp') = Some now
            \<and> members grp' = members grp \<and> votes grp' = votes grp))
   \<and> (groupsCol d g = None \<longrightarrow>
        finalizeSelection d g p n loc now = (Inl (Error ''Group not found''), d))
   \<and> (groupsCol d g = Some grp \<and> status grp = s
        \<and> 1 \<le> length r \<and> length r \<le> 3 \<and> current_member d g u \<longrightarrow>
        fst (castVotes d g u r) = Inr ())"
proof (intro conjI impI)
  assume a: "groupsCol d g = Some grp \<and> status grp = s"
  then show "fst (finalizeSelection d g p n loc now) = Inr ()"
    by (simp add: finalizeSelection_def Let_def)
  from a show "\<exists>grp'. groupsCol (snd (finalizeSelection d g p n loc now)) g = Some grp'
            \<and> status grp' = place_selected
            \<and> map_option fp_placeId (finalPlace grp') = Some p
            \<and> map_option fp_placeName (finalPlace grp') = Some n
            \<and> map_option fp_selectedAt (finalPlace grp') = Some now
            \<and> members grp' = members grp \<and> votes grp' = votes grp"
    by (simp add: finalizeSelection_def Let_def groupsCol_touch_members)
next
  assume "groupsCol d g = None"
  then show "finalizeSelection d g p n loc now = (Inl (Error ''Group not found''), d)"
    by (simp add: finalizeSelection_def)
next
  assume "groupsCol d g = Some grp \<and> status grp = s
        \<and> 1 \<le> length r \<and> length r \<le> 3 \<and> current_member d g u"
  then show "fst (castVotes d g u r) = Inr ()"
    using castVotes_member_ok by blast
qed

text \<open>The theorem at the archived group.\<close>

theorem status_is_not_checked_witness:
  "groupsCol archived_db ''g1'' = Some (scenario_group\<lparr>status := archived\<rparr>)
   \<and> status (scenario_group\<lparr>status := archived\<rparr>) = archived
   \<and> groupsCol archived_db ''g9'' = None
   \<and> 1 \<le> length [''C''] \<and> length [''C''] \<le> 3 \<and> current_member archived_db ''g1'' ''u1''
   \<and> fst (finalizeSelection archived_db ''g1'' ''B'' ''Place B'' None ''t1'') = Inr ()
   \<and> finalizeSelection archived_db ''g9'' ''B'' ''Place B'' None ''t1'' =
       (Inl (Error ''Group not found''), archived_db)
   \<and> fst (castVotes archived_db ''g1'' ''u1'' [''C'']) = Inr ()"
proof -
  have h1: "groupsCol archived_db ''g1'' = Some (scenario_group\<lparr>status := archived\<rparr>)
     \<and> status (scenario_group\<lparr>status := archived\<rparr>) = archived"
    by (simp add: archived_db_def)
  have h2: "groupsCol archived_db ''g9'' = None"
    by (simp add: archived_db_def)
  have h3: "1 \<le> length [''C''] \<and> length [''C''] \<le> 3 \<and> current_member archived_db ''g1'' ''u1''"
    by (simp add: current_member_def archived_db_def scenario_db_def scenario_group_def
        getUserByIdOrDiscordId_def)
  note t1 = status_is_not_checked [of archived_db "''g1''" "scenario_group\<lparr>status := archived\<rparr>"
      archived "''B''" "''Place B''" None "''t1''" "[''C'']" "''u1''"]
  note t2 = status_is_not_checked [of archived_db "''g9''" "scenario_group" active
      "''B''" "''Place B''" None "''t1''" "[''C'']" "''u1''"]
  from t1 h1 have c1: "fst (finalizeSelection archived_db ''g1'' ''B'' ''Place B'' None ''t1'') = Inr ()"
    by blast
  from t2 h2 have c2: "finalizeSelection archived_db ''g9'' ''B'' ''Place B'' None ''t1'' =
       (Inl (Error ''Group not found''), archived_db)" by blast
  from t1 h1 h3 have c3: "fst (castVotes archived_db ''g1'' ''u1'' [''C'']) = Inr ()" by blast
  from h1 h2 h3 c1 c2 c3 show ?thesis by blast
qed

section \<open>Properties of the feed of places\<close>





lemma recommend_unrated:
  assumes "getPlaceRatings d (place_id pl) = []"
  shows "isUnrated (recommend d af pl)" "rec_totalRatings (recommend d af pl) = 0"
  using assms by (simp_all add: recommend_def)

lemma isUnrated_recommend:
  "isUnrated (recommend d af pl) \<longleftrightarrow> rec_totalRatings (recommend d af pl) = 0"
  by (cases "getPlaceRatings d (place_id pl) = []") (simp_all add: recommend_def Let_def)

lemma compare_le_iff:
  "compare_recommendations a b \<le> 0 \<longleftrightarrow>
     (isUnrated a \<longrightarrow> isUnrated b) \<and>
     (\<not> isUnrated a \<and> \<not> isUnrated b \<longrightarrow>
        predictedScore b * confidence b \<le> predictedScore a * confidence a)"
  by (auto simp: compare_recommendations_def Let_def)

lemma feed_sorted:
  "sorted_wrt (\<lambda>a b. compare_recommendations a b \<le> 0) (explore_places d af nearby limit)"
  unfolding explore_places_def
proof (rule sorted_wrt_take, rule sorted_Array_sort)
  fix a b c
  assume "compare_recommendations a b \<le> 0" "compare_recommendations b c \<le> 0"
  then show "compare_recommendations a c \<le> 0"
    unfolding compare_le_iff by auto
next
  fix a b
  assume "\<not> compare_recommendations a b \<le> 0"
  then show "compare_recommendations b a \<le> 0"
    unfolding compare_le_iff by auto
qed

lemma feed_entries:
  "set (explore_places d af nearby limit) \<subseteq> recommend d af ` set nearby"
  unfolding explore_places_def
  using set_take_subset [of limit "Array_sort compare_recommendations (map (recommend d af) nearby)"]
  by (simp add: set_Array_sort)

text \<open>
  C9. In the feed the route returns, take any two entries, one before the other. Both
  are the recommendations of nearby places. It is never the case that the earlier place
  has no rating while the later has one, so every unrated place comes after every rated
  one; and if both have ratings, the product of predicted score and confidence of the
  earlier is at least that of the later.
\<close>

theorem feed_order:
  "i < j \<and> j < length (explore_places d af nearby limit) \<longrightarrow>
     (\<exists>pa pb. pa \<in> set nearby \<and> pb \<in> set nearby
        \<and> explore_places d af nearby limit ! i = recommend d af pa
        \<and> explore_places d af nearby limit ! j = recommend d af pb
        \<and> \<not> (getPlaceRatings d (place_id pa) = [] \<and> getPlaceRatings d (place_id pb) \<noteq> [])
        \<and> (getPlaceRatings d (place_id pa) \<noteq> [] \<and> getPlaceRatings d (place_id pb) \<noteq> [] \<longrightarrow>
             predictedScore (recommend d af pb) * confidence (recommend d af pb)
               \<le> predictedScore (recommend d af pa) * confidence (recommend d af pa)))"
proof
  let ?feed = "explore_places d af nearby limit"
  assume ij: "i < j \<and> j < length ?feed"
  then have "?feed ! i \<in> set ?feed" "?feed ! j \<in> set ?feed" by simp_all
  then obtain pa pb where p: "pa \<in> set nearby" "pb \<in> set nearby"
    "?feed ! i = recommend d af pa" "?feed ! j = recommend d af pb"
    using feed_entries [of d af nearby limit] by blast
  have "compare_recommendations (?feed ! i) (?feed ! j) \<le> 0"
    using feed_sorted [of d af nearby limit] ij by (simp add: sorted_wrt_iff_nth_less)
  then have c: "(isUnrated (recommend d af pa) \<longrightarrow> isUnrated (recommend d af pb)) \<and>
     (\<not> isUnrated (recommend d af pa) \<and> \<not> isUnrated (recommend d af pb) \<longrightarrow>
        predictedScore (recommend d af pb) * confidence (recommend d af pb)
          \<le> predictedScore (recommend d af pa) * confidence (recommend d af pa))"
    unfolding compare_le_iff p by simp
  have u: "isUnrated (recommend d af q) \<longleftrightarrow> getPlaceRatings d (place_id q) = []" for q
    by (cases "getPlaceRatings d (place_id q) = []") (simp_all add: recommend_def Let_def)
  from c p show "\<exists>pa pb. pa \<in> set nearby \<and> pb \<in> set nearby
        \<and> ?feed ! i = recommend d af pa
        \<and> ?feed ! j = recommend d af pb
        \<and> \<not> (getPlaceRatings d (place_id pa) = [] \<and> getPlaceRatings d (place_id pb) \<noteq> [])
        \<and> (getPlaceRatings d (place_id pa) \<noteq> [] \<and> getPlaceRatings d (place_id pb) \<noteq> [] \<longrightarrow>
             predictedScore (recommend d af pb) * confidence (recommend d af pb)
               \<le> predictedScore (recommend d af pa) * confidence (recommend d af pa))"
    unfolding u by blast
qed

lemma rec_id_recommend: "rec_id (recommend d af pl) = place_id pl"
  by (simp add: recommend_def Let_def)

lemma feed_example:
  "explore_places feed_db 0 [bar, diner, cafe] 20 =
     [recommend feed_db 0 cafe, recommend feed_db 0 diner, recommend feed_db 0 bar]"
  by (simp add: explore_places_def Array_sort_def recommend_def getPlaceRatings_def feed_db_def
      scenario_rating_def scenario_categories_def cafe_def bar_def diner_def Let_def
      compare_recommendations_def calculateAdjustedScoreForViewer_def
      normalizeCategoriesToObjective_def adjustCategoriesForViewer_def
      adjustCategoriesForPersonality_def calculateOverallScore_def weighted_sum_def
      reduce_sum_def Math_round_def)

lemma feed_example_ratings:
  "getPlaceRatings feed_db (place_id cafe) \<noteq> []"
  "getPlaceRatings feed_db (place_id diner) \<noteq> []"
  "getPlaceRatings feed_db (place_id bar) = []"
  by (simp_all add: getPlaceRatings_def feed_db_def scenario_rating_def cafe_def bar_def diner_def)

text \<open>The theorem at the feed of \<open>bar\<close>, \<open>diner\<close> and \<open>cafe\<close>, which comes out as \<open>cafe\<close>,
  \<open>diner\<close>, \<open>bar\<close>: the rated places first, the cafe (6.9 at 30 percent) before the diner
  (6.8 at 10 percent).\<close>

theorem feed_order_witness:
  "(0::nat) < 1 \<and> 1 < length (explore_places feed_db 0 [bar, diner, cafe] 20)
   \<and> explore_places feed_db 0 [bar, diner, cafe] 20 =
       [recommend feed_db 0 cafe, recommend feed_db 0 diner, recommend feed_db 0 bar]
   \<and> getPlaceRatings feed_db (place_id cafe) \<noteq> []
   \<and> getPlaceRatings feed_db (place_id diner) \<noteq> []
   \<and> getPlaceRatings feed_db (place_id bar) = []
   \<and> predictedScore (recommend feed_db 0 diner) * confidence (recommend feed_db 0 diner)
       \<le> predictedScore (recommend feed_db 0 cafe) * confidence (recommend feed_db 0 cafe)"
proof -
  let ?feed = "explore_places feed_db 0 [bar, diner, cafe] 20"
  have len: "(0::nat) < 1 \<and> 1 < length ?feed"
    by (simp add: feed_example)
  from feed_order [of 0 1 feed_db 0 "[bar, diner, cafe]" 20] len
  obtain pa pb where
    a: "?feed ! 0 = recommend feed_db 0 pa" and b: "?feed ! 1 = recommend feed_db 0 pb"
    and le: "getPlaceRatings feed_db (place_id pa) \<noteq> [] \<and> getPlaceRatings feed_db (place_id pb) \<noteq> [] \<longrightarrow>
             predictedScore (recommend feed_db 0 pb) * confidence (recommend feed_db 0 pb)
               \<le> predictedScore (recommend feed_db 0 pa) * confidence (recommend feed_db 0 pa)"
    by blast
  from a have ra: "recommend feed_db 0 pa = recommend feed_db 0 cafe"
    by (simp add: feed_example)
  from b have rb: "recommend feed_db 0 pb = recommend feed_db 0 diner"
    by (simp add: feed_example)
  have "place_id pa = place_id cafe"
    using rec_id_recommend [of feed_db 0 pa] rec_id_recommend [of feed_db 0 cafe] ra by simp
  moreover have "place_id pb = place_id diner"
    using rec_id_recommend [of feed_db 0 pb] rec_id_recommend [of feed_db 0 diner] rb by simp
  ultimately have "predictedScore (recommend feed_db 0 diner) * confidence (recommend feed_db 0 diner)
       \<le> predictedScore (recommend feed_db 0 cafe) * confidence (recommend feed_db 0 cafe)"
    using le feed_example_ratings ra rb by simp
  with len feed_example feed_example_ratings show ?thesis by blast
qed




section \<open>Properties of the rating aggregator\<close>

lemma getPlaceRatings_empty_iff:
  "getPlaceRatings d p = [] \<longleftrightarrow> p \<notin> set (map (\<lambda>e. r_placeId (snd e)) (ratingsCol d))"
  by (auto simp: getPlaceRatings_def filter_empty_conv)

lemma getPlaceRatings_cong:
  "ratingsCol d' = ratingsCol d \<Longrightarrow> getPlaceRatings d' p = getPlaceRatings d p"
  by (simp add: getPlaceRatings_def)

lemma updatePlaceStats_ratingsCol:
  "ratingsCol (updatePlaceStats d p n a l now) = ratingsCol d"
  by (simp add: updatePlaceStats_def Let_def split: option.splits)

lemma updatePlaceStats_dom:
  "dom (placesCol (updatePlaceStats d p n a l now)) = insert p (dom (placesCol d))"
  by (simp add: updatePlaceStats_def Let_def split: option.splits)

lemma updatePlaceStats_recomputed:
  "recomputed (updatePlaceStats d p n a l now) p now"
  by (simp add: recomputed_def updatePlaceStats_def Let_def getPlaceRatings_def split: option.splits)

lemma updateUserRatingStats_cols:
  "ratingsCol (updateUserRatingStats d u l) = ratingsCol d"
  "placesCol (updateUserRatingStats d u l) = placesCol d"
  by (simp_all add: updateUserRatingStats_def split: option.splits)

lemma place_invariant_cong:
  "ratingsCol d' = ratingsCol d \<Longrightarrow> placesCol d' = placesCol d \<Longrightarrow>
   place_invariant d' = place_invariant d"
  by (simp add: place_invariant_def)

lemma recomputed_cong:
  "ratingsCol d' = ratingsCol d \<Longrightarrow> placesCol d' = placesCol d \<Longrightarrow>
   recomputed d' p now = recomputed d p now"
  using getPlaceRatings_cong [of d' d p] by (simp add: recomputed_def split: option.splits)

lemma entry_set_fresh: "map_of xs k = None \<Longrightarrow> entry_set xs k v = xs @ [(k, v)]"
proof (induction xs)
  case Nil
  then show ?case by simp
next
  case (Cons e xs)
  obtain k' v' where e: "e = (k', v')" by (cases e)
  with Cons show ?case by (simp split: if_splits)
qed

lemma entry_set_same_place:
  "map_of xs k = Some v \<Longrightarrow> r_placeId v' = r_placeId v \<Longrightarrow>
   map (\<lambda>e. r_placeId (snd e)) (entry_set xs k v') = map (\<lambda>e. r_placeId (snd e)) xs"
proof (induction xs)
  case Nil
  then show ?case by simp
next
  case (Cons e xs)
  obtain k' w where e: "e = (k', w)" by (cases e)
  with Cons show ?case by (simp split: if_splits)
qed

lemma map_of_None_keys: "map_of xs k = None \<longleftrightarrow> k \<notin> fst ` set xs"
  by (simp add: map_of_eq_None_iff)


lemma createRating_state:
  "snd (createRating d newId uid pid pname paddr loc cats com af ptype now alg) = d' \<Longrightarrow>
   ratingsCol d' = entry_set (ratingsCol d) newId
       \<lparr>r_userId = uid, userAdjustmentFactor = af, userPersonalityType = ptype,
        r_placeId = pid, r_placeName = pname, r_placeAddress = paddr,
        r_location = loc, categories = cats,
        overallScore = calculateOverallScore cats af,
        comment = com, createdAt = now, updatedAt = now\<rparr>
   \<and> placesCol d' = placesCol (updatePlaceStats
         (d\<lparr>ratingsCol := entry_set (ratingsCol d) newId
            \<lparr>r_userId = uid, userAdjustmentFactor = af, userPersonalityType = ptype,
             r_placeId = pid, r_placeName = pname, r_placeAddress = paddr,
             r_location = loc, categories = cats,
             overallScore = calculateOverallScore cats af,
             comment = com, createdAt = now, updatedAt = now\<rparr>\<rparr>) pid pname paddr loc now)"
  by (auto simp: createRating_def Let_def updateUserRatingStats_cols updatePlaceStats_ratingsCol
      split: if_splits)

lemma createRating_invariant:
  assumes inv: "place_invariant d" and fresh: "map_of (ratingsCol d) newId = None"
  shows "place_invariant (snd (createRating d newId uid pid pname paddr loc cats com af ptype now alg))"
    and "recomputed (snd (createRating d newId uid pid pname paddr loc cats com af ptype now alg)) pid now"
proof -
  let ?rd = "\<lparr>r_userId = uid, userAdjustmentFactor = af, userPersonalityType = ptype,
        r_placeId = pid, r_placeName = pname, r_placeAddress = paddr,
        r_location = loc, categories = cats,
        overallScore = calculateOverallScore cats af,
        comment = com, createdAt = now, updatedAt = now\<rparr>"
  let ?d1 = "d\<lparr>ratingsCol := entry_set (ratingsCol d) newId ?rd\<rparr>"
  let ?d2 = "updatePlaceStats ?d1 pid pname paddr loc now"
  let ?d' = "snd (createRating d newId uid pid pname paddr loc cats com af ptype now alg)"
  have st: "ratingsCol ?d' = ratingsCol ?d2" "placesCol ?d' = placesCol ?d2"
    using createRating_state [OF refl, of d newId uid pid pname paddr loc cats com af ptype now alg]
    by (simp_all add: updatePlaceStats_ratingsCol)
  have r1: "ratingsCol ?d2 = ratingsCol d @ [(newId, ?rd)]"
    using fresh by (simp add: updatePlaceStats_ratingsCol entry_set_fresh)
  have "newId \<notin> fst ` set (ratingsCol d)"
    using fresh by (simp add: map_of_eq_None_iff)
  then have dist: "distinct (map fst (ratingsCol ?d2))"
    using inv unfolding r1 place_invariant_def by simp
  have "dom (placesCol ?d2) = insert pid (dom (placesCol d))"
    by (simp add: updatePlaceStats_dom)
  then have "dom (placesCol ?d2) = set (map (\<lambda>e. r_placeId (snd e)) (ratingsCol ?d2))"
    using inv unfolding r1 place_invariant_def by simp
  with dist have "place_invariant ?d2" by (simp add: place_invariant_def)
  then show "place_invariant ?d'"
    using place_invariant_cong [OF st] by simp
  have "recomputed ?d2 pid now" by (rule updatePlaceStats_recomputed)
  then show "recomputed ?d' pid now"
    using recomputed_cong [OF st] by simp
qed


lemma distinct_entry_delete:
  "distinct (map fst xs) \<Longrightarrow> distinct (map fst (entry_delete xs k))"
  by (simp add: entry_delete_def distinct_map_filter)

lemma entry_delete_places_subset:
  "set (map (\<lambda>e. r_placeId (snd e)) (entry_delete xs k)) \<subseteq> set (map (\<lambda>e. r_placeId (snd e)) xs)"
  by (auto simp: entry_delete_def)

lemma entry_delete_other_places:
  assumes dist: "distinct (map fst xs)" and look: "map_of xs k = Some v"
    and p: "p \<in> set (map (\<lambda>e. r_placeId (snd e)) xs)" and ne: "p \<noteq> r_placeId v"
  shows "p \<in> set (map (\<lambda>e. r_placeId (snd e)) (entry_delete xs k))"
proof -
  from p obtain k' w where e: "(k', w) \<in> set xs" "r_placeId w = p" by auto
  have "k' \<noteq> k"
  proof
    assume "k' = k"
    with e(1) dist have "map_of xs k = Some w" by simp
    with look e(2) ne show False by simp
  qed
  with e show ?thesis by (force simp: entry_delete_def)
qed

lemma last_rating_deleted:
  assumes dist: "distinct (map fst (ratingsCol d))" and look: "map_of (ratingsCol d) k = Some v"
    and one: "getPlaceRatings d (r_placeId v) = [x]"
  shows "getPlaceRatings (d\<lparr>ratingsCol := entry_delete (ratingsCol d) k\<rparr>) (r_placeId v) = []"
proof -
  let ?P = "\<lambda>e. r_placeId (snd e) = r_placeId v"
  have mem: "(k, v) \<in> set (filter ?P (ratingsCol d))"
    using look by (auto dest: map_of_SomeD)
  have "length (filter ?P (ratingsCol d)) = 1"
    using one unfolding getPlaceRatings_def by (metis length_map length_Cons list.size(3) One_nat_def)
  then obtain e where f: "filter ?P (ratingsCol d) = [e]"
    by (cases "filter ?P (ratingsCol d)") auto
  with mem have f': "filter ?P (ratingsCol d) = [(k, v)]" by simp
  have "filter ?P (entry_delete (ratingsCol d) k) = filter (\<lambda>e. fst e \<noteq> k) (filter ?P (ratingsCol d))"
    by (simp add: entry_delete_def conj_commute)
  then show ?thesis by (simp add: getPlaceRatings_def f')
qed

lemma deleteRating_state:
  "map_of (ratingsCol d) k = Some v \<Longrightarrow>
   snd (deleteRating d k now alg) =
     snd (recalculatePlaceStats (d\<lparr>ratingsCol := entry_delete (ratingsCol d) k\<rparr>) (r_placeId v) now)"
  by (simp add: deleteRating_def Let_def split: prod.splits sum.splits)

lemma deleteRating_invariant:
  assumes inv: "place_invariant d" and look: "map_of (ratingsCol d) k = Some v"
  shows "place_invariant (snd (deleteRating d k now alg))"
    and "getPlaceRatings (snd (deleteRating d k now alg)) (r_placeId v) = [] \<Longrightarrow>
           placesCol (snd (deleteRating d k now alg)) (r_placeId v) = None"
    and "getPlaceRatings (snd (deleteRating d k now alg)) (r_placeId v) \<noteq> [] \<Longrightarrow>
           recomputed (snd (deleteRating d k now alg)) (r_placeId v) now"
    and "getPlaceRatings d (r_placeId v) = [x] \<Longrightarrow>
           placesCol (snd (deleteRating d k now alg)) (r_placeId v) = None"
proof -
  let ?pid = "r_placeId v"
  let ?d1 = "d\<lparr>ratingsCol := entry_delete (ratingsCol d) k\<rparr>"
  let ?d' = "snd (deleteRating d k now alg)"
  let ?places = "\<lambda>d. set (map (\<lambda>e. r_placeId (snd e)) (ratingsCol d))"
  have st: "?d' = snd (recalculatePlaceStats ?d1 ?pid now)"
    using look by (rule deleteRating_state)
  have dist: "distinct (map fst (ratingsCol d))" and dm: "dom (placesCol d) = ?places d"
    using inv by (simp_all add: place_invariant_def)
  have dist1: "distinct (map fst (ratingsCol ?d1))"
    using dist by (simp add: distinct_entry_delete)
  have "?pid \<in> ?places d"
    using look by (force dest: map_of_SomeD)
  then obtain pl where pl: "placesCol d ?pid = Some pl"
    using dm by auto
  have sub: "?places ?d1 \<subseteq> ?places d"
    using entry_delete_places_subset [of "ratingsCol d" k] by simp
  have oth: "p \<in> ?places d \<Longrightarrow> p \<noteq> ?pid \<Longrightarrow> p \<in> ?places ?d1" for p
    using entry_delete_other_places [OF dist look, of p] by simp
  show inv': "place_invariant ?d'"
  proof (cases "getPlaceRatings ?d1 ?pid = []")
    case True
    then have s: "?d' = ?d1\<lparr>placesCol := (placesCol ?d1)(?pid := None)\<rparr>"
      by (simp add: st recalculatePlaceStats_def)
    from True have "?pid \<notin> ?places ?d1"
      by (simp only: getPlaceRatings_empty_iff not_False_eq_True)
    with sub oth have "?places ?d1 = ?places d - {?pid}" by blast
    with dist1 dm show ?thesis by (simp add: s place_invariant_def)
  next
    case False
    then have s: "?d' = ?d1\<lparr>placesCol := (placesCol ?d1)(?pid \<mapsto>
        pl\<lparr>stats := calculatePlaceStats (getPlaceRatings ?d1 ?pid) now, place_lastRatedAt := now\<rparr>)\<rparr>"
      using pl by (simp add: st recalculatePlaceStats_def Let_def)
    from False have "?pid \<in> ?places ?d1"
      by (simp only: getPlaceRatings_empty_iff not_not)
    with sub oth have "?places ?d1 = ?places d" by blast
    moreover have "insert ?pid (dom (placesCol d)) = dom (placesCol d)"
      using pl by auto
    ultimately show ?thesis using dist1 dm by (simp add: s place_invariant_def)
  qed
  have gp: "getPlaceRatings ?d' ?pid = getPlaceRatings ?d1 ?pid"
    by (rule getPlaceRatings_cong)
       (simp add: st recalculatePlaceStats_def Let_def split: option.splits)
  show none: "placesCol ?d' ?pid = None" if "getPlaceRatings ?d' ?pid = []"
    using that unfolding gp by (simp add: st recalculatePlaceStats_def)
  show "recomputed ?d' ?pid now" if "getPlaceRatings ?d' ?pid \<noteq> []"
  proof -
    from that have ne: "getPlaceRatings ?d1 ?pid \<noteq> []" unfolding gp .
    then have s: "?d' = ?d1\<lparr>placesCol := (placesCol ?d1)(?pid \<mapsto>
        pl\<lparr>stats := calculatePlaceStats (getPlaceRatings ?d1 ?pid) now, place_lastRatedAt := now\<rparr>)\<rparr>"
      using pl by (simp add: st recalculatePlaceStats_def Let_def)
    show ?thesis
      unfolding recomputed_def by (subst (1 2) s) (simp add: getPlaceRatings_def)
  qed
  show "placesCol ?d' ?pid = None" if "getPlaceRatings d ?pid = [x]"
  proof -
    have "getPlaceRatings ?d1 ?pid = []"
      using dist look that by (rule last_rating_deleted)
    then show ?thesis using none gp by simp
  qed
qed


lemma updateRating_invariant:
  assumes inv: "place_invariant d" and look: "map_of (ratingsCol d) k = Some v"
    and same: "or_keep (u_placeId upd) (r_placeId v) = r_placeId v"
  shows "fst (updateRating d k upd now) = Inr ()"
    and "place_invariant (snd (updateRating d k upd now))"
    and "stats_changed upd \<Longrightarrow> recomputed (snd (updateRating d k upd now)) (r_placeId v) now"
    and "\<not> stats_changed upd \<Longrightarrow> placesCol (snd (updateRating d k upd now)) = placesCol d"
proof -
  let ?u = "upd\<lparr>u_overallScore :=
                   (case u_categories upd of
                      Some c \<Rightarrow> Some (calculateOverallScore c (userAdjustmentFactor v))
                    | None \<Rightarrow> u_overallScore upd),
                 u_updatedAt := Some now\<rparr>"
  let ?v' = "apply_updates ?u v"
  let ?d1 = "d\<lparr>ratingsCol := entry_set (ratingsCol d) k ?v'\<rparr>"
  let ?d2 = "updatePlaceStats ?d1 (r_placeId v) (r_placeName v) (r_placeAddress v) (r_location v) now"
  let ?d' = "snd (updateRating d k upd now)"
  let ?places = "\<lambda>d. set (map (\<lambda>e. r_placeId (snd e)) (ratingsCol d))"
  show "fst (updateRating d k upd now) = Inr ()"
    using look by (simp add: updateRating_def Let_def)
  have st: "?d' = (if stats_changed upd then ?d2 else ?d1)"
    using look by (simp add: updateRating_def Let_def)
  have pid: "r_placeId ?v' = r_placeId v"
    using same by (simp add: apply_updates_def or_keep_def)
  have dist: "distinct (map fst (ratingsCol d))" and dm: "dom (placesCol d) = ?places d"
    using inv by (simp_all add: place_invariant_def)
  have dist1: "distinct (map fst (ratingsCol ?d1))"
    using dist by (simp add: distinct_entry_set)
  have pl1: "?places ?d1 = ?places d"
    using entry_set_same_place [OF look pid] by simp
  have inv1: "place_invariant ?d1"
    using dist1 pl1 dm by (simp add: place_invariant_def)
  have "r_placeId v \<in> ?places d"
    using look by (force dest: map_of_SomeD)
  then have "insert (r_placeId v) (dom (placesCol ?d1)) = dom (placesCol ?d1)"
    using dm by auto
  then have inv2: "place_invariant ?d2"
    using inv1 by (simp add: place_invariant_def updatePlaceStats_dom updatePlaceStats_ratingsCol)
  show "place_invariant ?d'"
    using inv1 inv2 by (simp add: st)
  show "recomputed ?d' (r_placeId v) now" if "stats_changed upd"
    using that updatePlaceStats_recomputed [of ?d1 "r_placeId v"] by (simp add: st)
  show "placesCol ?d' = placesCol d" if "\<not> stats_changed upd"
    using that by (simp add: st)
qed

lemma rated_db_cols:
  "ratingsCol rated_db = [(''r1'', scenario_rating)]"
  "placesCol rated_db = [''p1'' \<mapsto>
      \<lparr>place_id = ''p1'', place_name = ''Cafe'', place_address = ''1 Main St'',
       place_location = \<lparr>lat = 0, lng = 0\<rparr>,
       stats = calculatePlaceStats [scenario_rating] ''t0'', place_lastRatedAt = ''t0''\<rparr>]"
  by (simp_all add: rated_db_def empty_db_def createRating_def Let_def updatePlaceStats_def
      updateUserRatingStats_def getPlaceRatings_def scenario_rating_def
      calculateOverallScore_def adjustCategoriesForPersonality_def weighted_sum_def
      scenario_categories_def Math_round_def)

lemma rated_db_invariant: "place_invariant rated_db"
  by (simp add: place_invariant_def rated_db_cols scenario_rating_def)

text \<open>
  C2, as stated: every create, update and delete of a rating would recompute the
  aggregate of the place. An edit of the comment alone, at \<open>t1\<close>, succeeds and changes the
  rating, but \<open>updateRating\<close> recomputes only \<open>if (updates.categories ||
  updates.overallScore)\<close>: the place document is left as it was, still stamped \<open>t0\<close>.
\<close>

theorem comment_edit_does_not_recompute:
  "place_invariant rated_db
   \<and> fst (updateRating rated_db ''r1'' comment_only ''t1'') = Inr ()
   \<and> map_option comment (map_of (ratingsCol (snd (updateRating rated_db ''r1'' comment_only ''t1''))) ''r1'')
       = Some ''Even better now!''
   \<and> placesCol (snd (updateRating rated_db ''r1'' comment_only ''t1'')) = placesCol rated_db
   \<and> map_option place_lastRatedAt (placesCol (snd (updateRating rated_db ''r1'' comment_only ''t1'')) ''p1'')
       = Some ''t0''
   \<and> \<not> recomputed (snd (updateRating rated_db ''r1'' comment_only ''t1'')) ''p1'' ''t1''"
proof -
  have u: "snd (updateRating rated_db ''r1'' comment_only ''t1'') =
      rated_db\<lparr>ratingsCol := [(''r1'', scenario_rating\<lparr>comment := ''Even better now!'', updatedAt := ''t1''\<rparr>)]\<rparr>"
    by (simp add: updateRating_def rated_db_cols Let_def stats_changed_def comment_only_def
        apply_updates_def or_keep_def scenario_rating_def)
  have f: "fst (updateRating rated_db ''r1'' comment_only ''t1'') = Inr ()"
    by (simp add: updateRating_def rated_db_cols Let_def)
  show ?thesis
    unfolding u using f rated_db_invariant
    by (simp add: rated_db_cols recomputed_def)
qed


text \<open>
  An edit that carries another \<open>placeId\<close> is outside the theorem below, and it does leave
  the store inconsistent: \<open>updateRating\<close> writes the rating under the new place and
  touches no place document, so the old place keeps an aggregate without a rating.
\<close>

lemma moved_rating_breaks_invariant:
  "place_invariant rated_db
   \<and> fst (updateRating rated_db ''r1'' new_place ''t1'') = Inr ()
   \<and> \<not> place_invariant (snd (updateRating rated_db ''r1'' new_place ''t1''))
   \<and> getPlaceRatings (snd (updateRating rated_db ''r1'' new_place ''t1'')) ''p1'' = []
   \<and> placesCol (snd (updateRating rated_db ''r1'' new_place ''t1'')) ''p1'' \<noteq> None"
proof -
  have u: "snd (updateRating rated_db ''r1'' new_place ''t1'') =
      rated_db\<lparr>ratingsCol := [(''r1'', scenario_rating\<lparr>r_placeId := ''p2'',
         comment := ''Even better now!'', updatedAt := ''t1''\<rparr>)]\<rparr>"
    by (simp add: updateRating_def rated_db_cols Let_def stats_changed_def comment_only_def
        new_place_def apply_updates_def or_keep_def scenario_rating_def)
  have f: "fst (updateRating rated_db ''r1'' new_place ''t1'') = Inr ()"
    by (simp add: updateRating_def rated_db_cols Let_def)
  show ?thesis
    unfolding u using f rated_db_invariant
    by (simp add: rated_db_cols place_invariant_def getPlaceRatings_def scenario_rating_def)
qed

text \<open>
  C2, amended. In a store where the places with an aggregate document are exactly the
  places some rating refers to:
  \<^item> \<open>createRating\<close>, with the fresh id of the new document, keeps the store so and leaves
    the aggregate of the place recomputed from all its ratings;
  \<^item> \<open>deleteRating\<close> keeps the store so; when the deleted rating was the only one of its
    place the aggregate document is gone, and when ratings remain the aggregate is
    recomputed from them;
  \<^item> \<open>updateRating\<close> with an update that leaves the \<open>placeId\<close> as it is succeeds and keeps
    the store so; it recomputes the aggregate from all ratings of the place when the
    update carries categories or a non-zero overall score, and leaves the places
    untouched otherwise.
\<close>

theorem aggregate_follows_ratings:
  "place_invariant d \<longrightarrow>
     (map_of (ratingsCol d) newId = None \<longrightarrow>
        place_invariant (snd (createRating d newId uid pid pname paddr loc cats com af ptype now alg))
        \<and> recomputed (snd (createRating d newId uid pid pname paddr loc cats com af ptype now alg)) pid now)
     \<and> (map_of (ratingsCol d) k = Some v \<longrightarrow>
          place_invariant (snd (deleteRating d k now alg))
          \<and> (getPlaceRatings d (r_placeId v) = [v] \<longrightarrow>
               placesCol (snd (deleteRating d k now alg)) (r_placeId v) = None)
          \<and> (getPlaceRatings (snd (deleteRating d k now alg)) (r_placeId v) \<noteq> [] \<longrightarrow>
               recomputed (snd (deleteRating d k now alg)) (r_placeId v) now))
     \<and> (map_of (ratingsCol d) k = Some v \<and> or_keep (u_placeId upd) (r_placeId v) = r_placeId v \<longrightarrow>
          fst (updateRating d k upd now) = Inr ()
          \<and> place_invariant (snd (updateRating d k upd now))
          \<and> (stats_changed upd \<longrightarrow> recomputed (snd (updateRating d k upd now)) (r_placeId v) now)
          \<and> (\<not> stats_changed upd \<longrightarrow> placesCol (snd (updateRating d k upd now)) = placesCol d))"
proof (intro impI conjI)
  assume inv: "place_invariant d"
  {
    assume "map_of (ratingsCol d) newId = None"
    with inv show "place_invariant (snd (createRating d newId uid pid pname paddr loc cats com af ptype now alg))"
      and "recomputed (snd (createRating d newId uid pid pname paddr loc cats com af ptype now alg)) pid now"
      by (rule createRating_invariant)+
  }
  {
    assume look: "map_of (ratingsCol d) k = Some v"
    from inv look show "place_invariant (snd (deleteRating d k now alg))"
      by (rule deleteRating_invariant)
    {
      assume "getPlaceRatings d (r_placeId v) = [v]"
      with inv look show "placesCol (snd (deleteRating d k now alg)) (r_placeId v) = None"
        by (rule deleteRating_invariant(4))
    }
    {
      assume "getPlaceRatings (snd (deleteRating d k now alg)) (r_placeId v) \<noteq> []"
      with inv look show "recomputed (snd (deleteRating d k now alg)) (r_placeId v) now"
        by (rule deleteRating_invariant(3))
    }
  }
  {
    assume a: "map_of (ratingsCol d) k = Some v \<and> or_keep (u_placeId upd) (r_placeId v) = r_placeId v"
    then have look: "map_of (ratingsCol d) k = Some v"
      and same: "or_keep (u_placeId upd) (r_placeId v) = r_placeId v" by simp_all
    from inv look same show "fst (updateRating d k upd now) = Inr ()"
      by (rule updateRating_invariant(1))
    from inv look same show "place_invariant (snd (updateRating d k upd now))"
      by (rule updateRating_invariant(2))
    {
      assume "stats_changed upd"
      with inv look same show "recomputed (snd (updateRating d k upd now)) (r_placeId v) now"
        by (rule updateRating_invariant(3))
    }
    {
      assume "\<not> stats_changed upd"
      with inv look same show "placesCol (snd (updateRating d k upd now)) = placesCol d"
        by (rule updateRating_invariant(4))
    }
  }
qed


lemma two_db_ratings:
  "ratingsCol two_db =
     [(''r1'', scenario_rating),
      (''r2'', scenario_rating\<lparr>r_userId := ''u2'', categories := scenario_categories\<lparr>service := 8\<rparr>,
                 overallScore := 7, createdAt := ''t1'', updatedAt := ''t1''\<rparr>)]"
  using createRating_state [OF refl, of rated_db "''r2''" "''u2''" "''p1''" "''Cafe''" "''1 Main St''"
      "\<lparr>lat = 0, lng = 0\<rparr>" "scenario_categories\<lparr>service := 8\<rparr>" "[]" 0 "''Ambivert''" "''t1''" True]
  by (simp add: two_db_def rated_db_cols scenario_rating_def calculateOverallScore_def
      adjustCategoriesForPersonality_def weighted_sum_def scenario_categories_def Math_round_def)

text \<open>The theorem at the store with one rating (a second rating created, the only rating
  deleted, the comment edited, the categories edited) and at the store with two ratings
  (one of them deleted).\<close>

theorem aggregate_follows_ratings_witness:
  "place_invariant rated_db
   \<and> map_of (ratingsCol rated_db) ''r2'' = None
   \<and> place_invariant two_db \<and> recomputed two_db ''p1'' ''t1''
   \<and> map_of (ratingsCol rated_db) ''r1'' = Some scenario_rating
   \<and> getPlaceRatings rated_db ''p1'' = [scenario_rating]
   \<and> place_invariant (snd (deleteRating rated_db ''r1'' ''t1'' True))
   \<and> placesCol (snd (deleteRating rated_db ''r1'' ''t1'' True)) ''p1'' = None
   \<and> map_of (ratingsCol two_db) ''r1'' = Some scenario_rating
   \<and> getPlaceRatings (snd (deleteRating two_db ''r1'' ''t2'' True)) ''p1'' \<noteq> []
   \<and> recomputed (snd (deleteRating two_db ''r1'' ''t2'' True)) ''p1'' ''t2''
   \<and> or_keep (u_placeId comment_only) ''p1'' = ''p1'' \<and> \<not> stats_changed comment_only
   \<and> placesCol (snd (updateRating rated_db ''r1'' comment_only ''t1'')) = placesCol rated_db
   \<and> or_keep (u_placeId new_scores) ''p1'' = ''p1'' \<and> stats_changed new_scores
   \<and> place_invariant (snd (updateRating rated_db ''r1'' new_scores ''t1''))
   \<and> recomputed (snd (updateRating rated_db ''r1'' new_scores ''t1'')) ''p1'' ''t1''"
proof -
  have p1: "r_placeId scenario_rating = ''p1''" by (simp add: scenario_rating_def)
  have inv: "place_invariant rated_db" by (rule rated_db_invariant)
  have fresh: "map_of (ratingsCol rated_db) ''r2'' = None" by (simp add: rated_db_cols)
  have look: "map_of (ratingsCol rated_db) ''r1'' = Some scenario_rating"
    by (simp add: rated_db_cols)
  have one: "getPlaceRatings rated_db ''p1'' = [scenario_rating]"
    by (simp add: getPlaceRatings_def rated_db_cols p1)
  have k1: "or_keep (u_placeId comment_only) ''p1'' = ''p1''" "\<not> stats_changed comment_only"
    by (simp_all add: comment_only_def or_keep_def stats_changed_def)
  have k2: "or_keep (u_placeId new_scores) ''p1'' = ''p1''" "stats_changed new_scores"
    by (simp_all add: new_scores_def comment_only_def or_keep_def stats_changed_def)
  note t1 = aggregate_follows_ratings [of rated_db "''r2''" "''u2''" "''p1''" "''Cafe''" "''1 Main St''"
      "\<lparr>lat = 0, lng = 0\<rparr>" "scenario_categories\<lparr>service := 8\<rparr>" "[]" 0 "''Ambivert''" "''t1''" True
      "''r1''" scenario_rating comment_only, unfolded p1]
  note t2 = aggregate_follows_ratings [of rated_db "''r2''" "''u2''" "''p1''" "''Cafe''" "''1 Main St''"
      "\<lparr>lat = 0, lng = 0\<rparr>" "scenario_categories\<lparr>service := 8\<rparr>" "[]" 0 "''Ambivert''" "''t1''" True
      "''r1''" scenario_rating new_scores, unfolded p1]
  from t1 inv fresh have c1: "place_invariant two_db" "recomputed two_db ''p1'' ''t1''"
    unfolding two_db_def by blast+
  from t1 inv look one have c2: "place_invariant (snd (deleteRating rated_db ''r1'' ''t1'' True))"
    "placesCol (snd (deleteRating rated_db ''r1'' ''t1'' True)) ''p1'' = None"
    by blast+
  from t1 inv look k1 have c3:
    "placesCol (snd (updateRating rated_db ''r1'' comment_only ''t1'')) = placesCol rated_db"
    by blast
  from t2 inv look k2 have c4: "place_invariant (snd (updateRating rated_db ''r1'' new_scores ''t1''))"
    "recomputed (snd (updateRating rated_db ''r1'' new_scores ''t1'')) ''p1'' ''t1''"
    by blast+
  have look2: "map_of (ratingsCol two_db) ''r1'' = Some scenario_rating"
    by (simp add: two_db_ratings)
  have st: "snd (deleteRating two_db ''r1'' ''t2'' True) =
     snd (recalculatePlaceStats (two_db\<lparr>ratingsCol := entry_delete (ratingsCol two_db) ''r1''\<rparr>) ''p1'' ''t2'')"
    using deleteRating_state [OF look2, of "''t2''" True] by (simp add: p1)
  have rem: "getPlaceRatings (snd (deleteRating two_db ''r1'' ''t2'' True)) ''p1'' \<noteq> []"
    unfolding st
    by (simp add: recalculatePlaceStats_def Let_def getPlaceRatings_def two_db_ratings
        entry_delete_def scenario_rating_def split: option.splits)
  note t3 = aggregate_follows_ratings [of two_db "''r3''" "''u2''" "''p1''" "''Cafe''" "''1 Main St''"
      "\<lparr>lat = 0, lng = 0\<rparr>" "scenario_categories" "[]" 0 "''Ambivert''" "''t2''" True
      "''r1''" scenario_rating comment_only, unfolded p1]
  from t3 c1(1) look2 rem have c5:
    "recomputed (snd (deleteRating two_db ''r1'' ''t2'' True)) ''p1'' ''t2''"
    by blast
  from inv fresh c1 look one c2 look2 rem c5 k1 c3 k2 c4 show ?thesis by blast
qed

end
